theory Spec2Isabelle
  imports Main "HOL-Library.Sublist"
begin

section \<open>Go values used by handler.go\<close>

text \<open>
  A Go \<^verbatim>\<open>[]string\<close> is either the nil slice or a (possibly empty) sequence of strings.
  The difference is visible to \<^verbatim>\<open>reflect.DeepEqual\<close>, which \<^verbatim>\<open>matchesRequest\<close> calls, so
  the model keeps it.
\<close>

datatype slice = NilSlice | Slice "string list"

fun elems :: "slice \<Rightarrow> string list" where
  "elems NilSlice = []"
| "elems (Slice xs) = xs"

text \<open>Go's \<^verbatim>\<open>append(s, v)\<close>: the result is never nil.\<close>

definition append_slice :: "slice \<Rightarrow> string \<Rightarrow> slice" where
  "append_slice s v = Slice (elems s @ [v])"

text \<open>
  \<^verbatim>\<open>http.Header\<close> is \<^verbatim>\<open>map[string][]string\<close>. Reading a key that is not in the map gives
  the zero value of the element type, the nil slice; the two-result form also tells whether
  the key is there.
\<close>

type_synonym Header = "string \<rightharpoonup> slice"

definition index :: "Header \<Rightarrow> string \<Rightarrow> slice" where
  "index m k = (case m k of None \<Rightarrow> NilSlice | Some s \<Rightarrow> s)"

text \<open>
  \<^verbatim>\<open>reflect.DeepEqual\<close> on two \<^verbatim>\<open>[]string\<close> values: both nil, or both non-nil with the same
  length and equal elements. A nil slice and a non-nil empty slice are not deeply equal.
\<close>

fun DeepEqual :: "slice \<Rightarrow> slice \<Rightarrow> bool" where
  "DeepEqual NilSlice NilSlice = True"
| "DeepEqual (Slice xs) (Slice ys) = (length xs = length ys \<and> xs = ys)"
| "DeepEqual NilSlice (Slice ys) = False"
| "DeepEqual (Slice xs) NilSlice = False"

text \<open>A run-time panic of the Go program; \<^verbatim>\<open>vary[0]\<close> on a slice without elements raises one.\<close>

datatype panic = IndexOutOfRange

text \<open>Go errors are opaque values here.\<close>

datatype error = Error string

subsection \<open>strings.Split and strings.TrimSpace\<close>

text \<open>
  \<^verbatim>\<open>strings.Split(s, ",")\<close> cuts at every comma; \<open>n\<close> commas give \<open>n + 1\<close> pieces, so the
  result is never empty.
\<close>

fun Split :: "string \<Rightarrow> char \<Rightarrow> string list" where
  "Split [] sep = [[]]"
| "Split (c # cs) sep =
     (if c = sep then [] # Split cs sep
      else (case Split cs sep of [] \<Rightarrow> [[c]] | p # ps \<Rightarrow> (c # p) # ps))"

text \<open>
  \<^verbatim>\<open>strings.TrimSpace\<close> removes leading and trailing white space as \<^verbatim>\<open>unicode.IsSpace\<close>
  defines it. Go strings are byte sequences in UTF-8, as \<^typ>\<open>string\<close> is here, so the white
  space code points are listed by their encodings: tab, line feed, vertical tab, form
  feed, carriage return, space, U+0085, U+00A0, U+1680, U+2000 to U+200A, U+2028, U+2029,
  U+202F, U+205F and U+3000.
\<close>

definition space_runes :: "string list" where
  "space_runes =
     [[CHR 0x09], [CHR 0x0A], [CHR 0x0B], [CHR 0x0C], [CHR 0x0D], [CHR 0x20],
      [CHR 0xC2, CHR 0x85], [CHR 0xC2, CHR 0xA0],
      [CHR 0xE1, CHR 0x9A, CHR 0x80],
      [CHR 0xE2, CHR 0x80, CHR 0x80], [CHR 0xE2, CHR 0x80, CHR 0x81],
      [CHR 0xE2, CHR 0x80, CHR 0x82], [CHR 0xE2, CHR 0x80, CHR 0x83],
      [CHR 0xE2, CHR 0x80, CHR 0x84], [CHR 0xE2, CHR 0x80, CHR 0x85],
      [CHR 0xE2, CHR 0x80, CHR 0x86], [CHR 0xE2, CHR 0x80, CHR 0x87],
      [CHR 0xE2, CHR 0x80, CHR 0x88], [CHR 0xE2, CHR 0x80, CHR 0x89],
      [CHR 0xE2, CHR 0x80, CHR 0x8A],
      [CHR 0xE2, CHR 0x80, CHR 0xA8], [CHR 0xE2, CHR 0x80, CHR 0xA9],
      [CHR 0xE2, CHR 0x80, CHR 0xAF], [CHR 0xE2, CHR 0x81, CHR 0x9F],
      [CHR 0xE3, CHR 0x80, CHR 0x80]]"

text \<open>Removing, one after the other, every encoding from \<open>us\<close> that starts the string.\<close>

function trim_runes :: "string list \<Rightarrow> string \<Rightarrow> string" where
  "trim_runes us s =
     (case find (\<lambda>u. u \<noteq> [] \<and> prefix u s) us of
        None \<Rightarrow> s
      | Some u \<Rightarrow> trim_runes us (drop (length u) s))"
  by pat_completeness auto
termination
proof (relation "measure (\<lambda>(us, s). length s)")
  show "wf (measure (\<lambda>(us, s). length s))" by simp
next
  fix us :: "string list" and s u :: string
  assume "find (\<lambda>u. u \<noteq> [] \<and> prefix u s) us = Some u"
  then have "u \<noteq> []" and "prefix u s"
    by (auto simp: find_Some_iff)
  then have "s \<noteq> []" and "0 < length u"
    by auto
  then show "((us, drop (length u) s), (us, s)) \<in> measure (\<lambda>(us, s). length s)"
    by simp
qed

definition TrimSpace :: "string \<Rightarrow> string" where
  "TrimSpace s =
     rev (trim_runes (map rev space_runes) (rev (trim_runes space_runes s)))"

section \<open>The data of the cache handler\<close>

text \<open>
  \<^verbatim>\<open>http.Request\<close>, as far as handler.go reads it: the method, the host, the URL's path and
  raw query, and the headers. Times are nanosecond counts.
\<close>

record URL =
  Path :: string
  RawQuery :: string

record http_Request =
  Method :: string
  Host :: string
  URL :: URL
  Header :: Header

type_synonym time = int

definition Hour :: int where
  "Hour = 3600000000000"

text \<open>
  The types \<^verbatim>\<open>Request\<close>, \<^verbatim>\<open>Response\<close> and \<^verbatim>\<open>HttpCacheEntry\<close> of package cache are declared
  outside handler.go; the fields are the ones handler.go reads and assigns. Both \<^verbatim>\<open>Request\<close>
  and \<^verbatim>\<open>Response\<close> have a field \<^verbatim>\<open>HeaderMap\<close>; the request's is written \<open>ReqHeaderMap\<close> here.
  \<^verbatim>\<open>Body\<close> is an interface value (absent when nil) naming a content of the store. An entry
  in handler.go always has its \<^verbatim>\<open>Request\<close> and, once it is returned, its \<^verbatim>\<open>Response\<close>, so
  the two pointers are plain fields.
\<close>

type_synonym content = nat

record Request =
  ReqHeaderMap :: Header

record Response =
  HeaderMap :: Header
  Body :: "content option"
  Code :: int

record HttpCacheEntry =
  isPublic :: bool
  Expiration :: time
  Request :: Request
  Response :: Response

record Config =
  StatusHeader :: string

record CacheHandler =
  Config :: Config

section \<open>getKey\<close>

text \<open>
  \<^verbatim>\<open>r.URL.Query().Encode()\<close> belongs to Go's net/url: it parses the raw query and prints it
  again, sorted by key and escaped. It is a parameter \<open>Encode\<close>, a function of the raw query.
\<close>

definition getKey :: "(string \<Rightarrow> string) \<Rightarrow> http_Request \<Rightarrow> string" where
  "getKey Encode r =
     (let key = Method r @ '' '' @ Host r @ Path (URL r);
          q = Encode (RawQuery (URL r))
      in if length q > 0 then key @ ''?'' @ q else key)"

section \<open>matchesRequest\<close>

text \<open>The loop of lines 46 to 51 over the pieces of the first Vary value.\<close>

fun vary_loop :: "HttpCacheEntry \<Rightarrow> http_Request \<Rightarrow> string list \<Rightarrow> bool" where
  "vary_loop entry r [] = True"
| "vary_loop entry r (piece # pieces) =
     (let searchedHeader = TrimSpace piece
      in if \<not> DeepEqual (index (ReqHeaderMap (Request entry)) searchedHeader)
                          (index (Header r) searchedHeader)
         then False
         else vary_loop entry r pieces)"

definition matchesRequest :: "http_Request \<Rightarrow> HttpCacheEntry \<Rightarrow> panic + bool" where
  "matchesRequest r entry =
     (case HeaderMap (Response entry) ''Vary'' of
        None \<Rightarrow> Inr True
      | Some vary \<Rightarrow>
          (case elems vary of
             [] \<Rightarrow> Inl IndexOutOfRange
           | v0 # _ \<Rightarrow> Inr (vary_loop entry r (Split v0 CHR '',''))))"

section \<open>The response writer and the surroundings of the handler\<close>

text \<open>
  \<^verbatim>\<open>http.ResponseWriter\<close> is an interface: what the handler does to it is the header map it
  edits through \<^verbatim>\<open>Header()\<close> and the calls it makes. \<^verbatim>\<open>io.Copy(w, reader)\<close> is one
  \<open>Write\<close> of everything the reader holds; its error is dropped by the source.
\<close>

datatype wcall = WriteHeader int | Write string

record ResponseWriter =
  wHeader :: Header
  wCalls :: "wcall list"

text \<open>
  \<^verbatim>\<open>Header.Set\<close> and \<^verbatim>\<open>Header.Add\<close> of net/http store under the canonical form of the key
  (\<^verbatim>\<open>textproto.CanonicalMIMEHeaderKey\<close>, a parameter \<open>canon\<close> here); the builtin
  \<^verbatim>\<open>delete\<close> removes the exact key.
\<close>

definition Header_Set :: "(string \<Rightarrow> string) \<Rightarrow> Header \<Rightarrow> string \<Rightarrow> string \<Rightarrow> Header" where
  "Header_Set canon h k v = h(canon k \<mapsto> Slice [v])"

definition Header_Add :: "(string \<Rightarrow> string) \<Rightarrow> Header \<Rightarrow> string \<Rightarrow> string \<Rightarrow> Header" where
  "Header_Add canon h k v = h(canon k \<mapsto> append_slice (index h (canon k)) v)"

definition delete :: "Header \<Rightarrow> string \<Rightarrow> Header" where
  "delete h k = h(k := None)"

text \<open>
  A goroutine started with \<^verbatim>\<open>go\<close>: the fetch of lines 100 to 105 (\<^verbatim>\<open>pipe.handle()\<close>, then
  a send on the end channel), the drain of lines 124 to 127, and the pump of lines 149 to
  154, which writes every chunk to the content and closes it. A started goroutine is
  recorded and not run: nothing in the handler waits for one, except the receive from the
  end channel in \<^verbatim>\<open>ServeHTTP\<close>.
\<close>

datatype goroutine = pipe_handle | drain_body | pump_body content

datatype chan = EndChannel

text \<open>
  What handler.go calls and does not define. From Go's library: the query encoding, the
  canonical header key, the order in which \<^verbatim>\<open>range\<close> visits the keys of a map, the clock.
  From package cache and from Caddy: \<^verbatim>\<open>shouldUseCache\<close>, \<^verbatim>\<open>getCacheableStatus\<close>,
  \<^verbatim>\<open>Cache.NewContent\<close> (given the keys of the earlier calls and the key),
  what the header channel of \<^verbatim>\<open>PipeHandlerToChannels(handler.Next, w, r)\<close> delivers,
  \<^verbatim>\<open>Body.GetReader()\<close> read to its end, and \<^verbatim>\<open>handler.Next.ServeHTTP\<close>.
\<close>

record env =
  Encode :: "string \<Rightarrow> string"
  CanonicalMIMEHeaderKey :: "string \<Rightarrow> string"
  range_keys :: "Header \<Rightarrow> string list"
  Now :: time
  shouldUseCache :: "http_Request \<Rightarrow> bool"
  getCacheableStatus :: "http_Request \<Rightarrow> int \<Rightarrow> Header \<Rightarrow> Config \<Rightarrow> bool \<times> time \<times> error option"
  NewContent :: "string list \<Rightarrow> string \<Rightarrow> error + content"
  HeaderChannel :: "ResponseWriter \<Rightarrow> http_Request \<Rightarrow> int \<times> Header"
  GetReader :: "content \<Rightarrow> string"
  Next_ServeHTTP :: "ResponseWriter \<Rightarrow> http_Request \<Rightarrow> ResponseWriter \<times> int \<times> error option"

text \<open>
  The state the handler changes: the client's writer, the goroutines started so far, the
  keys \<^verbatim>\<open>NewContent\<close> was called with, the errors printed with \<^verbatim>\<open>fmt.Println\<close>, and the
  channels \<^verbatim>\<open>ServeHTTP\<close> has received from.
\<close>

record world =
  writer :: ResponseWriter
  goroutines :: "goroutine list"
  NewContent_calls :: "string list"
  stdout :: "error list"
  received :: "chan list"

section \<open>The status header\<close>

definition AddStatusHeaderIfConfigured ::
  "CacheHandler \<Rightarrow> env \<Rightarrow> ResponseWriter \<Rightarrow> string \<Rightarrow> ResponseWriter" where
  "AddStatusHeaderIfConfigured h ext w status =
     (if StatusHeader (Config h) \<noteq> ''''
      then w\<lparr>wHeader := Header_Set (CanonicalMIMEHeaderKey ext) (wHeader w) (StatusHeader (Config h)) status\<rparr>
      else w)"

definition RemoveStatusHeaderIfConfigured :: "CacheHandler \<Rightarrow> Header \<Rightarrow> Header" where
  "RemoveStatusHeaderIfConfigured h headers =
     (if StatusHeader (Config h) \<noteq> '''' then delete headers (StatusHeader (Config h)) else headers)"

section \<open>HandleCachedResponse\<close>

text \<open>The inner loop of lines 76 to 78 and the outer one of lines 75 to 79.\<close>

fun add_values :: "(string \<Rightarrow> string) \<Rightarrow> Header \<Rightarrow> string \<Rightarrow> string list \<Rightarrow> Header" where
  "add_values canon h k [] = h"
| "add_values canon h k (v # vs) = add_values canon (Header_Add canon h k v) k vs"

fun replay :: "(string \<Rightarrow> string) \<Rightarrow> Header \<Rightarrow> Header \<Rightarrow> string list \<Rightarrow> Header" where
  "replay canon stored h [] = h"
| "replay canon stored h (k # ks) =
     replay canon stored (add_values canon h k (elems (index stored k))) ks"

definition HandleCachedResponse ::
  "CacheHandler \<Rightarrow> env \<Rightarrow> ResponseWriter \<Rightarrow> http_Request \<Rightarrow> HttpCacheEntry \<Rightarrow> ResponseWriter \<times> int" where
  "HandleCachedResponse handler ext w r previous =
     (let w1 = AddStatusHeaderIfConfigured handler ext w ''hit'';
          stored = HeaderMap (Response previous);
          w2 = w1\<lparr>wHeader := replay (CanonicalMIMEHeaderKey ext) stored (wHeader w1) (range_keys ext stored)\<rparr>;
          w3 = w2\<lparr>wCalls := wCalls w2 @ [WriteHeader (Code (Response previous))]\<rparr>;
          w4 = (case Body (Response previous) of
                  None \<Rightarrow> w3
                | Some body \<Rightarrow> w3\<lparr>wCalls := wCalls w3 @ [Write (GetReader ext body)]\<rparr>)
      in (w4, Code (Response previous)))"

section \<open>HandleNonCachedResponse\<close>

text \<open>
  The source returns \<^verbatim>\<open>(entry, endChannel, err)\<close> with a nil entry exactly when the error is
  not nil; the model returns the channel and \<open>Inl err\<close> or \<open>Inr entry\<close>. The entry of lines
  90 to 94 gets its \<^verbatim>\<open>Response\<close> only in the branch that returns it, so the record is
  written out there. The map behind \<^verbatim>\<open>*headers.Header\<close> is the value the header channel
  delivered.
\<close>

definition HandleNonCachedResponse ::
  "CacheHandler \<Rightarrow> env \<Rightarrow> http_Request \<Rightarrow> world \<Rightarrow> world \<times> chan \<times> (error + HttpCacheEntry)" where
  "HandleNonCachedResponse handler ext r s0 =
     (let s1 = s0\<lparr>writer := AddStatusHeaderIfConfigured handler ext (writer s0) ''miss''\<rparr>;
          default_Expiration = Now ext + 1 * Hour;
          request = \<lparr>ReqHeaderMap = Header r\<rparr>;
          endChannel = EndChannel;
          s2 = s1\<lparr>goroutines := goroutines s1 @ [pipe_handle]\<rparr>;
          (StatusCode, headers) = HeaderChannel ext (writer s1) r;
          (isCacheable, expirationTime, err) = getCacheableStatus ext r StatusCode headers (Config handler)
      in case err of
           Some e \<Rightarrow> (s2\<lparr>stdout := stdout s2 @ [e]\<rparr>, endChannel, Inl e)
         | None \<Rightarrow>
             if \<not> isCacheable then
               (s2\<lparr>goroutines := goroutines s2 @ [drain_body]\<rparr>, endChannel,
                Inr \<lparr>isPublic = False, Expiration = default_Expiration, Request = request,
                     Response = \<lparr>HeaderMap = RemoveStatusHeaderIfConfigured handler headers,
                                 Body = None, Code = StatusCode\<rparr>\<rparr>)
             else
               (let s3 = s2\<lparr>NewContent_calls := NewContent_calls s2 @ [getKey (Encode ext) r]\<rparr>
                in case NewContent ext (NewContent_calls s2) (getKey (Encode ext) r) of
                     Inl e \<Rightarrow> (s3\<lparr>stdout := stdout s3 @ [e]\<rparr>, endChannel, Inl e)
                   | Inr bodyWriter \<Rightarrow>
                       (s3\<lparr>goroutines := goroutines s3 @ [pump_body bodyWriter]\<rparr>, endChannel,
                        Inr \<lparr>isPublic = True, Expiration = expirationTime, Request = request,
                             Response = \<lparr>HeaderMap = RemoveStatusHeaderIfConfigured handler headers,
                                         Body = Some bodyWriter, Code = StatusCode\<rparr>\<rparr>)))"

section \<open>ServeHTTP\<close>

text \<open>
  The store of package cache, as far as \<^verbatim>\<open>ServeHTTP\<close> meets it: the entries kept under each
  key.
\<close>

type_synonym Cache = "string \<Rightarrow> HttpCacheEntry list"

text \<open>
  Modelled from the spec: \<^verbatim>\<open>Cache.GetOrSet\<close> is defined outside handler.go. The spec's
  \<^verbatim>\<open>store.getOrPopulate(key, matchFn, producerFn)\<close> hands the producer the previous matching
  entry or none; the producer returns a replacement entry or the signal to keep the existing
  value, plus an error; the call returns the error. Here the previous entry is the first one
  under the key that the match predicate accepts, a replacement takes its place, and an
  error or the keep signal leaves the store as it was. A panic of the predicate ends the
  call.
\<close>

fun find_match :: "(HttpCacheEntry \<Rightarrow> panic + bool) \<Rightarrow> HttpCacheEntry list \<Rightarrow> panic + HttpCacheEntry option" where
  "find_match matches [] = Inr None"
| "find_match matches (e # es) =
     (case matches e of
        Inl p \<Rightarrow> Inl p
      | Inr True \<Rightarrow> Inr (Some e)
      | Inr False \<Rightarrow> find_match matches es)"

definition GetOrSet ::
  "string \<Rightarrow> (HttpCacheEntry \<Rightarrow> panic + bool) \<Rightarrow>
   (HttpCacheEntry option \<Rightarrow> 's \<Rightarrow> 's \<times> (error + HttpCacheEntry option)) \<Rightarrow>
   Cache \<Rightarrow> 's \<Rightarrow> panic + (Cache \<times> 's \<times> error option)" where
  "GetOrSet key matches producer cache s =
     (case find_match matches (cache key) of
        Inl p \<Rightarrow> Inl p
      | Inr previous \<Rightarrow>
          (case producer previous s of
             (s', Inl e) \<Rightarrow> Inr (cache, s', Some e)
           | (s', Inr None) \<Rightarrow> Inr (cache, s', None)
           | (s', Inr (Some new)) \<Rightarrow>
               Inr (cache(key := new # (case previous of None \<Rightarrow> cache key
                                       | Some old \<Rightarrow> remove1 old (cache key))),
                    s', None)))"

text \<open>
  The two variables of \<^verbatim>\<open>ServeHTTP\<close> that the function literal of lines 167 to 182
  assigns, and the literal itself: it returns \<open>Inl err\<close> for \<^verbatim>\<open>(nil, err)\<close>, \<open>Inr None\<close> for
  \<^verbatim>\<open>(nil, nil)\<close> and \<open>Inr (Some entry)\<close> for \<^verbatim>\<open>(entry, nil)\<close>.
\<close>

record captured =
  endChannel :: "chan option"
  returnedStatusCode :: int

definition StatusInternalServerError :: int where
  "StatusInternalServerError = 500"

definition producer ::
  "CacheHandler \<Rightarrow> env \<Rightarrow> http_Request \<Rightarrow> HttpCacheEntry option \<Rightarrow>
   world \<times> captured \<Rightarrow> (world \<times> captured) \<times> (error + HttpCacheEntry option)" where
  "producer handler ext r previous sv =
     (let (s, v) = sv;
          miss = (case HandleNonCachedResponse handler ext r s of
                    (s', endChn, Inl err) \<Rightarrow> ((s', v), Inl err)
                  | (s', endChn, Inr newEntry) \<Rightarrow>
                      ((s', v\<lparr>endChannel := Some endChn,
                               returnedStatusCode := Code (Response newEntry)\<rparr>),
                       Inr (Some newEntry)))
      in case previous of
           None \<Rightarrow> miss
         | Some p \<Rightarrow>
             if \<not> isPublic p then miss
             else
               (let w1 = AddStatusHeaderIfConfigured handler ext (writer s) ''hit'';
                    (w2, code) = HandleCachedResponse handler ext w1 r p
                in ((s\<lparr>writer := w2\<rparr>, v\<lparr>returnedStatusCode := code\<rparr>), Inr None)))"

definition ServeHTTP ::
  "CacheHandler \<Rightarrow> env \<Rightarrow> http_Request \<Rightarrow> Cache \<Rightarrow> world \<Rightarrow>
   panic + (Cache \<times> world \<times> int \<times> error option)" where
  "ServeHTTP handler ext r cache s =
     (if \<not> shouldUseCache ext r then
        (let w1 = AddStatusHeaderIfConfigured handler ext (writer s) ''skip'';
             (w2, code, err) = Next_ServeHTTP ext w1 r
         in Inr (cache, s\<lparr>writer := w2\<rparr>, code, err))
      else
        (case GetOrSet (getKey (Encode ext) r) (matchesRequest r) (producer handler ext r) cache
                (s, \<lparr>endChannel = None, returnedStatusCode = StatusInternalServerError\<rparr>) of
           Inl p \<Rightarrow> Inl p
         | Inr (cache', (s', v), err) \<Rightarrow>
             (let s'' = (case endChannel v of
                           None \<Rightarrow> s'
                         | Some c \<Rightarrow> s'\<lparr>received := received s' @ [c]\<rparr>)
              in Inr (cache', s'', returnedStatusCode v, err))))"

section \<open>The match predicate in the words of the specification\<close>

text \<open>
  The specification compares, for every header named by the Vary value, the ordered list
  of values of the stored snapshot with the one of the current request: same length, same
  values, same order; both absent counts as equal, present on one side only is a
  mismatch. This definition follows those words, to be compared with \<open>matchesRequest\<close>.
  The Vary value is the first value stored under the key (the empty string when the key
  has no value).
\<close>

definition same_values :: "Header \<Rightarrow> Header \<Rightarrow> string \<Rightarrow> bool" where
  "same_values stored current name =
     (case (stored name, current name) of
        (None, None) \<Rightarrow> True
      | (Some a, Some b) \<Rightarrow> length (elems a) = length (elems b) \<and> elems a = elems b
      | (None, Some b) \<Rightarrow> False
      | (Some a, None) \<Rightarrow> False)"

definition spec_matches :: "http_Request \<Rightarrow> HttpCacheEntry \<Rightarrow> bool" where
  "spec_matches r entry =
     (case HeaderMap (Response entry) ''Vary'' of
        None \<Rightarrow> True
      | Some vary \<Rightarrow>
          list_all
            (\<lambda>piece. same_values (ReqHeaderMap (Request entry)) (Header r) (TrimSpace piece))
            (Split (case elems vary of [] \<Rightarrow> [] | v # _ \<Rightarrow> v) CHR '',''))"

section \<open>Example inputs\<close>

text \<open>
  Concrete values on which the definitions are run below: a handler with a status header,
  a request, a stored entry whose response varies on \<^verbatim>\<open>Accept-Encoding\<close> in its first Vary
  value and on \<^verbatim>\<open>X-B\<close> in its second, and stand-ins for the surroundings. The upstream of
  the example answers 404 under \<^verbatim>\<open>/missing\<close>, 500 under \<^verbatim>\<open>/broken\<close> and 200 elsewhere; the
  policy caches a 200 for ten minutes, does not cache a 404 and fails on anything else;
  the store cannot open a content for \<^verbatim>\<open>/full\<close>.
\<close>

definition example_handler :: CacheHandler where
  "example_handler = \<lparr>Config = \<lparr>StatusHeader = ''X-Cache-Status''\<rparr>\<rparr>"

definition example_request :: "string \<Rightarrow> http_Request" where
  "example_request path =
     \<lparr>Method = ''GET'', Host = ''example.org'', URL = \<lparr>Path = path, RawQuery = ''''\<rparr>,
      Header = [''Accept-Encoding'' \<mapsto> Slice [''gzip''], ''X-B'' \<mapsto> Slice [''1'']]\<rparr>"

definition example_entry :: HttpCacheEntry where
  "example_entry =
     \<lparr>isPublic = True, Expiration = 600000000000,
      Request = \<lparr>ReqHeaderMap = [''Accept-Encoding'' \<mapsto> Slice [''gzip'']]\<rparr>,
      Response =
        \<lparr>HeaderMap = [''Content-Type'' \<mapsto> Slice [''text/plain''],
                      ''Vary'' \<mapsto> Slice [''Accept-Encoding'', ''X-B'']],
         Body = Some 0, Code = 200\<rparr>\<rparr>"

definition example_env :: env where
  "example_env =
     \<lparr>Encode = (\<lambda>q. q),
      CanonicalMIMEHeaderKey = (\<lambda>k. k),
      range_keys = (\<lambda>h. filter (\<lambda>k. h k \<noteq> None) [''Content-Type'', ''Vary'', ''X-Cache-Status'']),
      Now = 0,
      shouldUseCache = (\<lambda>r. Method r = ''GET''),
      getCacheableStatus =
        (\<lambda>r code h cfg.
           if code = 200 then (True, 600000000000, None)
           else if code = 404 then (False, 0, None)
           else (False, 0, Some (Error ''policy''))),
      NewContent =
        (\<lambda>calls key. if key = ''GET example.org/full'' then Inl (Error ''disk full'')
                      else Inr (length calls)),
      HeaderChannel =
        (\<lambda>w r. (if Path (URL r) = ''/missing'' then 404
                 else if Path (URL r) = ''/broken'' then 500 else 200,
                (wHeader w)(''Content-Type'' \<mapsto> Slice [''text/plain'']))),
      GetReader = (\<lambda>c. ''hello''),
      Next_ServeHTTP = (\<lambda>w r. (w\<lparr>wCalls := wCalls w @ [WriteHeader 200]\<rparr>, 200, None))\<rparr>"

definition example_world :: world where
  "example_world =
     \<lparr>writer = \<lparr>wHeader = Map.empty, wCalls = []\<rparr>, goroutines = [], NewContent_calls = [],
      stdout = [], received = []\<rparr>"

text \<open>
  A handler whose status header is configured in lower case, and surroundings whose
  canonical header key turns that name into \<^verbatim>\<open>X-Cache-Status\<close>, as Go's does.
\<close>

definition lowercase_handler :: CacheHandler where
  "lowercase_handler = \<lparr>Config = \<lparr>StatusHeader = ''x-cache-status''\<rparr>\<rparr>"

definition canonical_env :: env where
  "canonical_env =
     example_env\<lparr>CanonicalMIMEHeaderKey :=
       (\<lambda>k. if k = ''x-cache-status'' then ''X-Cache-Status'' else k)\<rparr>"

section \<open>Supporting facts\<close>

lemma DeepEqual_iff: "DeepEqual a b \<longleftrightarrow> a = b"
  by (cases a; cases b) auto

lemma vary_loop_list_all:
  "vary_loop entry r pieces =
     list_all (\<lambda>piece. index (ReqHeaderMap (Request entry)) (TrimSpace piece) =
                        index (Header r) (TrimSpace piece)) pieces"
  by (induction pieces) (simp_all add: DeepEqual_iff Let_def)

lemma TrimSpace_examples:
  "TrimSpace ''X'' = ''X''"
  "TrimSpace ''Accept-Encoding'' = ''Accept-Encoding''"
  by code_simp+

lemma values_add_values:
  "elems (index (add_values canon h k vs) c) =
     elems (index h c) @ (if canon k = c then vs else [])"
  by (induction vs arbitrary: h) (simp_all add: Header_Add_def index_def append_slice_def)

lemma values_replay:
  "elems (index (replay canon stored h ks) c) =
     elems (index h c) @
     concat (map (\<lambda>k. elems (index stored k)) (filter (\<lambda>k. canon k = c) ks))"
  by (induction ks arbitrary: h) (simp_all add: values_add_values)

lemma sublist_replay:
  assumes "k \<in> set ks"
  shows "sublist (elems (index stored k)) (elems (index (replay canon stored h ks) (canon k)))"
proof -
  from assms have "k \<in> set (filter (\<lambda>k'. canon k' = canon k) ks)"
    by simp
  then obtain xs ys where "filter (\<lambda>k'. canon k' = canon k) ks = xs @ k # ys"
    by (auto dest: split_list)
  then have "elems (index (replay canon stored h ks) (canon k)) =
      (elems (index h (canon k)) @ concat (map (\<lambda>k. elems (index stored k)) xs)) @
      elems (index stored k) @ concat (map (\<lambda>k. elems (index stored k)) ys)"
    by (simp add: values_replay)
  then show ?thesis
    unfolding sublist_def by blast
qed

lemma filter_inj_key:
  assumes "distinct ks" and "inj_on canon (set ks)" and "k \<in> set ks"
  shows "filter (\<lambda>k'. canon k' = canon k) ks = [k]"
  using assms
proof (induction ks)
  case Nil
  then show ?case by simp
next
  case (Cons a ks)
  show ?case
  proof (cases "a = k")
    case True
    with Cons.prems have "\<forall>k' \<in> set ks. canon k' \<noteq> canon k"
      by (auto simp: inj_on_def)
    then have "filter (\<lambda>k'. canon k' = canon k) ks = []"
      by (simp add: filter_empty_conv)
    with True show ?thesis by simp
  next
    case False
    with Cons.prems have "canon a \<noteq> canon k" and "k \<in> set ks"
      by (auto simp: inj_on_def)
    moreover from Cons.prems have "distinct ks" and "inj_on canon (set ks)"
      by (auto simp: inj_on_def)
    ultimately show ?thesis
      using Cons.IH by simp
  qed
qed

lemma wCalls_AddStatusHeaderIfConfigured:
  "wCalls (AddStatusHeaderIfConfigured handler ext w status) = wCalls w"
  by (simp add: AddStatusHeaderIfConfigured_def)

lemma AddStatusHeaderIfConfigured_twice:
  "AddStatusHeaderIfConfigured handler ext (AddStatusHeaderIfConfigured handler ext w status) status =
   AddStatusHeaderIfConfigured handler ext w status"
  by (simp add: AddStatusHeaderIfConfigured_def Header_Set_def)

lemma HandleNonCachedResponse_wCalls:
  "HandleNonCachedResponse handler ext r s = (s', chn, res) \<Longrightarrow>
   wCalls (writer s') = wCalls (writer s)"
  by (auto simp: HandleNonCachedResponse_def Let_def wCalls_AddStatusHeaderIfConfigured
           split: prod.splits option.splits if_splits sum.splits)

lemma HandleNonCachedResponse_received:
  "HandleNonCachedResponse handler ext r s = (s', chn, res) \<Longrightarrow> received s' = received s"
  by (auto simp: HandleNonCachedResponse_def Let_def
           split: prod.splits option.splits if_splits sum.splits)

text \<open>The example surroundings, evaluated.\<close>

lemma example_miss_writer:
  "AddStatusHeaderIfConfigured example_handler example_env (writer example_world) ''miss'' =
     \<lparr>wHeader = [''X-Cache-Status'' \<mapsto> Slice [''miss'']], wCalls = []\<rparr>"
  by (simp add: AddStatusHeaderIfConfigured_def example_handler_def example_env_def
        example_world_def Header_Set_def)

lemma example_HeaderChannel:
  "HeaderChannel example_env w (example_request path) =
     (if path = ''/missing'' then 404 else if path = ''/broken'' then 500 else 200,
      (wHeader w)(''Content-Type'' \<mapsto> Slice [''text/plain'']))"
  by (simp add: example_env_def example_request_def)

lemma example_getCacheableStatus:
  "getCacheableStatus example_env r code h cfg =
     (if code = 200 then (True, 600000000000, None)
      else if code = 404 then (False, 0, None)
      else (False, 0, Some (Error ''policy'')))"
  by (simp add: example_env_def)

lemma example_getKey:
  "getKey (Encode example_env) (example_request path) = ''GET example.org'' @ path"
  by (simp add: example_env_def example_request_def getKey_def)

lemma example_NewContent:
  "NewContent example_env calls key =
     (if key = ''GET example.org/full'' then Inl (Error ''disk full'') else Inr (length calls))"
  by (simp add: example_env_def)

lemma lowercase_miss_writer:
  "AddStatusHeaderIfConfigured lowercase_handler canonical_env (writer example_world) ''miss'' =
     \<lparr>wHeader = [''X-Cache-Status'' \<mapsto> Slice [''miss'']], wCalls = []\<rparr>"
  by (simp add: AddStatusHeaderIfConfigured_def lowercase_handler_def canonical_env_def
        example_env_def example_world_def Header_Set_def)

lemma canonical_env_simps:
  "HeaderChannel canonical_env = HeaderChannel example_env"
  "getCacheableStatus canonical_env = getCacheableStatus example_env"
  "NewContent canonical_env = NewContent example_env"
  "Encode canonical_env = Encode example_env"
  "Now canonical_env = 0"
  "GetReader canonical_env = GetReader example_env"
  "range_keys canonical_env = range_keys example_env"
  by (simp_all add: canonical_env_def example_env_def)

section \<open>Properties of the handler\<close>

subsection \<open>The match predicate\<close>

text \<open>
  C1, as amended. Let an entry be stored whose response has no \<^verbatim>\<open>Vary\<close> key, or has one
  with at least one value. Without the key the predicate returns true for every request.
  With it, the predicate returns true exactly when, for every piece of the first Vary
  value cut at the commas and trimmed of white space, the slice read under that name from
  the stored request snapshot and the slice read from the current request are deeply
  equal: both nil (the key is absent, or mapped to a nil slice), or both non-nil with the
  same values in the same order. A single name that differs makes it return false. What
  the predicate does on a \<^verbatim>\<open>Vary\<close> key without values is left out.
\<close>

theorem matchesRequest_deep_equality:
  "(HeaderMap (Response entry) ''Vary'' = None \<longrightarrow> matchesRequest r entry = Inr True) \<and>
   (\<forall>v vs. HeaderMap (Response entry) ''Vary'' = Some (Slice (v # vs)) \<longrightarrow>
      matchesRequest r entry =
        Inr (list_all
               (\<lambda>piece. index (ReqHeaderMap (Request entry)) (TrimSpace piece) =
                         index (Header r) (TrimSpace piece))
               (Split v CHR '','')))"
  by (simp add: matchesRequest_def vary_loop_list_all)

theorem matchesRequest_deep_equality_witness:
  "matchesRequest (example_request ''/hello'') example_entry = Inr True \<and>
   matchesRequest ((example_request ''/hello'')\<lparr>Header := [''Accept-Encoding'' \<mapsto> Slice [''br'']]\<rparr>)
     example_entry = Inr False \<and>
   matchesRequest (example_request ''/hello'')
     (example_entry\<lparr>Response := \<lparr>HeaderMap = Map.empty, Body = None, Code = 200\<rparr>\<rparr>) = Inr True"
proof -
  have vary: "HeaderMap (Response example_entry) ''Vary'' = Some (Slice (''Accept-Encoding'' # [''X-B'']))"
    by (simp add: example_entry_def)
  have no_vary: "HeaderMap (Response (example_entry\<lparr>Response := \<lparr>HeaderMap = Map.empty, Body = None, Code = 200\<rparr>\<rparr>)) ''Vary'' = None"
    by simp
  note with_vary = matchesRequest_deep_equality [THEN conjunct2, rule_format, OF vary]
  note without = matchesRequest_deep_equality [THEN conjunct1, rule_format, OF no_vary]
  show ?thesis
    by (simp add: with_vary without) (simp add: example_request_def example_entry_def index_def TrimSpace_examples)
qed

text \<open>
  The claim as the specification words it fails where deep equality and list equality
  part: the stored snapshot holds \<^verbatim>\<open>X\<close> with a non-nil empty list, the current request
  holds \<^verbatim>\<open>X\<close> with a nil list. Both lists have length 0, so the specification's
  comparison accepts; \<^verbatim>\<open>reflect.DeepEqual\<close> does not, and the predicate returns false.
\<close>

theorem matchesRequest_list_equality_counterexample:
  "matchesRequest
     \<lparr>Method = ''GET'', Host = ''example.org'', URL = \<lparr>Path = ''/'', RawQuery = ''''\<rparr>,
      Header = [''X'' \<mapsto> NilSlice]\<rparr>
     \<lparr>isPublic = True, Expiration = 0, Request = \<lparr>ReqHeaderMap = [''X'' \<mapsto> Slice []]\<rparr>,
      Response = \<lparr>HeaderMap = [''Vary'' \<mapsto> Slice [''X'']], Body = None, Code = 200\<rparr>\<rparr>
     = Inr False \<and>
   spec_matches
     \<lparr>Method = ''GET'', Host = ''example.org'', URL = \<lparr>Path = ''/'', RawQuery = ''''\<rparr>,
      Header = [''X'' \<mapsto> NilSlice]\<rparr>
     \<lparr>isPublic = True, Expiration = 0, Request = \<lparr>ReqHeaderMap = [''X'' \<mapsto> Slice []]\<rparr>,
      Response = \<lparr>HeaderMap = [''Vary'' \<mapsto> Slice [''X'']], Body = None, Code = 200\<rparr>\<rparr>"
  by (simp add: matchesRequest_def spec_matches_def same_values_def index_def TrimSpace_examples)

text \<open>
  C10. Only the first value stored under \<^verbatim>\<open>Vary\<close> is read. When the key has the values
  \<open>v # vs\<close>, the result is decided by the names inside \<open>v\<close> alone; so two entries with the
  same request snapshot whose Vary lists start with the same value match the same
  requests, whatever names their later values list.
\<close>

theorem matchesRequest_first_Vary_value_only:
  assumes "HeaderMap (Response entry) ''Vary'' = Some (Slice (v # vs))"
  shows "matchesRequest r entry =
           Inr (list_all
                  (\<lambda>piece. index (ReqHeaderMap (Request entry)) (TrimSpace piece) =
                            index (Header r) (TrimSpace piece))
                  (Split v CHR '','')) \<and>
         (\<forall>entry' vs'. HeaderMap (Response entry') ''Vary'' = Some (Slice (v # vs')) \<and>
                        Request entry' = Request entry \<longrightarrow>
                        matchesRequest r entry' = matchesRequest r entry)"
  using assms by (simp add: matchesRequest_def vary_loop_list_all)

theorem matchesRequest_first_Vary_value_only_witness:
  "index (ReqHeaderMap (Request example_entry)) ''X-B'' \<noteq> index (Header (example_request ''/hello'')) ''X-B'' \<and>
   matchesRequest (example_request ''/hello'') example_entry = Inr True \<and>
   matchesRequest (example_request ''/hello'')
     (example_entry\<lparr>Response := (Response example_entry)\<lparr>HeaderMap := [''Vary'' \<mapsto> Slice [''Accept-Encoding'']]\<rparr>\<rparr>)
     = Inr True"
proof -
  have vary: "HeaderMap (Response example_entry) ''Vary'' = Some (Slice (''Accept-Encoding'' # [''X-B'']))"
    by (simp add: example_entry_def)
  note first = matchesRequest_first_Vary_value_only [OF vary, of "example_request ''/hello''"]
  have here: "matchesRequest (example_request ''/hello'') example_entry = Inr True"
    by (simp add: first [THEN conjunct1])
       (simp add: example_request_def example_entry_def index_def TrimSpace_examples)
  have "matchesRequest (example_request ''/hello'')
     (example_entry\<lparr>Response := (Response example_entry)\<lparr>HeaderMap := [''Vary'' \<mapsto> Slice [''Accept-Encoding'']]\<rparr>\<rparr>)
     = matchesRequest (example_request ''/hello'') example_entry"
    by (rule first [THEN conjunct2, rule_format, of _ "[]"]) simp
  with here show ?thesis
    by (simp add: example_request_def example_entry_def index_def)
qed

subsection \<open>The cache key\<close>

text \<open>
  C8. Two requests with the same method, host and path and the same encoded query get the
  same key, whatever their headers are. \<open>getKey\<close> is a function of the request alone and
  has no failing case.
\<close>

theorem getKey_ignores_headers:
  assumes "Method r1 = Method r2" and "Host r1 = Host r2" and "Path (URL r1) = Path (URL r2)"
      and "enc (RawQuery (URL r1)) = enc (RawQuery (URL r2))"
  shows "getKey enc r1 = getKey enc r2"
  using assms by (simp add: getKey_def)

theorem getKey_ignores_headers_witness:
  "Header (example_request ''/hello'') ''Accept-Encoding'' \<noteq>
     Header ((example_request ''/hello'')\<lparr>Header := [''Accept-Encoding'' \<mapsto> Slice [''br'']]\<rparr>) ''Accept-Encoding'' \<and>
   getKey (\<lambda>q. q) (example_request ''/hello'') =
     getKey (\<lambda>q. q) ((example_request ''/hello'')\<lparr>Header := [''Accept-Encoding'' \<mapsto> Slice [''br'']]\<rparr>) \<and>
   getKey (\<lambda>q. q) (example_request ''/hello'') = ''GET example.org/hello''"
proof -
  have "getKey (\<lambda>q. q) (example_request ''/hello'') =
     getKey (\<lambda>q. q) ((example_request ''/hello'')\<lparr>Header := [''Accept-Encoding'' \<mapsto> Slice [''br'']]\<rparr>)"
    by (rule getKey_ignores_headers) simp_all
  then show ?thesis
    by (simp add: example_request_def getKey_def)
qed

subsection \<open>The hit path\<close>

text \<open>
  C7. Go's \<^verbatim>\<open>range\<close> visits every key of the stored header map once. Then the hit path returns
  the stored status code; it calls \<^verbatim>\<open>WriteHeader\<close> with that code and, when the entry has a
  body, writes everything a fresh reader of the body holds; and every header of the stored
  response is replayed onto the writer: its values appear, complete and in their order,
  among the writer's values for the header's canonical name, and after whatever the writer
  already had there when no two stored names share a canonical name. All the writer's
  header values are given by the last conjunct. In \<^verbatim>\<open>ServeHTTP\<close>, when the store hands the
  producer a public entry, the status code reported is the replayed one, with no error and
  the store left as it was.
\<close>

theorem HandleCachedResponse_replays_entry:
  assumes "distinct (range_keys ext (HeaderMap (Response previous)))"
      and "set (range_keys ext (HeaderMap (Response previous))) = dom (HeaderMap (Response previous))"
  shows "(case HandleCachedResponse handler ext w r previous of
            (w', code) \<Rightarrow>
              code = Code (Response previous) \<and>
              wCalls w' = wCalls w @ WriteHeader (Code (Response previous)) #
                (case Body (Response previous) of
                   None \<Rightarrow> []
                 | Some body \<Rightarrow> [Write (GetReader ext body)]) \<and>
              (\<forall>k vs. HeaderMap (Response previous) k = Some vs \<longrightarrow>
                 sublist (elems vs) (elems (index (wHeader w') (CanonicalMIMEHeaderKey ext k))) \<and>
                 (inj_on (CanonicalMIMEHeaderKey ext) (dom (HeaderMap (Response previous))) \<longrightarrow>
                    elems (index (wHeader w') (CanonicalMIMEHeaderKey ext k)) =
                      elems (index (wHeader (AddStatusHeaderIfConfigured handler ext w ''hit''))
                               (CanonicalMIMEHeaderKey ext k)) @ elems vs)) \<and>
              (\<forall>c. elems (index (wHeader w') c) =
                 elems (index (wHeader (AddStatusHeaderIfConfigured handler ext w ''hit'')) c) @
                 concat (map (\<lambda>k. elems (index (HeaderMap (Response previous)) k))
                          (filter (\<lambda>k. CanonicalMIMEHeaderKey ext k = c)
                             (range_keys ext (HeaderMap (Response previous))))))) \<and>
         (\<forall>cache s.
            shouldUseCache ext r \<and>
            find_match (matchesRequest r) (cache (getKey (Encode ext) r)) = Inr (Some previous) \<and>
            isPublic previous \<longrightarrow>
            ServeHTTP handler ext r cache s =
              Inr (cache, s\<lparr>writer := fst (HandleCachedResponse handler ext (writer s) r previous)\<rparr>,
                   Code (Response previous), None))"
proof -
  let ?stored = "HeaderMap (Response previous)"
  let ?canon = "CanonicalMIMEHeaderKey ext"
  let ?w1 = "AddStatusHeaderIfConfigured handler ext w ''hit''"
  let ?ks = "range_keys ext ?stored"
  obtain w' code where res: "HandleCachedResponse handler ext w r previous = (w', code)"
    by (cases "HandleCachedResponse handler ext w r previous")
  from res have code: "code = Code (Response previous)"
    by (auto simp: HandleCachedResponse_def Let_def)
  from res have hdr: "wHeader w' = replay ?canon ?stored (wHeader ?w1) ?ks"
    by (auto simp: HandleCachedResponse_def Let_def split: option.splits)
  from res have calls: "wCalls w' = wCalls w @ WriteHeader (Code (Response previous)) #
      (case Body (Response previous) of None \<Rightarrow> [] | Some body \<Rightarrow> [Write (GetReader ext body)])"
    by (auto simp: HandleCachedResponse_def Let_def wCalls_AddStatusHeaderIfConfigured
             split: option.splits)
  have each: "sublist (elems vs) (elems (index (wHeader w') (?canon k))) \<and>
      (inj_on ?canon (dom ?stored) \<longrightarrow>
         elems (index (wHeader w') (?canon k)) = elems (index (wHeader ?w1) (?canon k)) @ elems vs)"
    if "?stored k = Some vs" for k vs
  proof -
    from that assms(2) have k: "k \<in> set ?ks" by auto
    from that have vs: "index ?stored k = vs" by (simp add: index_def)
    have "sublist (elems (index ?stored k)) (elems (index (wHeader w') (?canon k)))"
      unfolding hdr using k by (rule sublist_replay)
    moreover have "elems (index (wHeader w') (?canon k)) =
        elems (index (wHeader ?w1) (?canon k)) @ elems (index ?stored k)"
      if "inj_on ?canon (dom ?stored)"
    proof -
      from that assms(2) have "inj_on ?canon (set ?ks)" by simp
      with assms(1) k have "filter (\<lambda>k'. ?canon k' = ?canon k) ?ks = [k]"
        by (intro filter_inj_key)
      then show ?thesis
        unfolding hdr by (simp add: values_replay)
    qed
    ultimately show ?thesis
      using vs by simp
  qed
  have all: "elems (index (wHeader w') c) = elems (index (wHeader ?w1) c) @
      concat (map (\<lambda>k. elems (index ?stored k)) (filter (\<lambda>k. ?canon k = c) ?ks))" for c
    unfolding hdr by (rule values_replay)
  have serve: "ServeHTTP handler ext r cache s =
      Inr (cache, s\<lparr>writer := fst (HandleCachedResponse handler ext (writer s) r previous)\<rparr>,
           Code (Response previous), None)"
    if "shouldUseCache ext r"
      and "find_match (matchesRequest r) (cache (getKey (Encode ext) r)) = Inr (Some previous)"
      and "isPublic previous"
    for cache s
    using that
    by (simp add: ServeHTTP_def GetOrSet_def producer_def Let_def HandleCachedResponse_def
          AddStatusHeaderIfConfigured_twice split: option.splits)
  from code calls each all serve show ?thesis
    unfolding res by simp
qed

theorem HandleCachedResponse_replays_entry_witness:
  "(case HandleCachedResponse example_handler example_env (writer example_world)
           (example_request ''/hello'') example_entry of
      (w', code) \<Rightarrow>
        code = 200 \<and> wCalls w' = [WriteHeader 200, Write ''hello''] \<and>
        elems (index (wHeader w') ''Content-Type'') = [''text/plain''] \<and>
        elems (index (wHeader w') ''Vary'') = [''Accept-Encoding'', ''X-B''] \<and>
        elems (index (wHeader w') ''X-Cache-Status'') = [''hit'']) \<and>
   (case ServeHTTP example_handler example_env (example_request ''/hello'')
           (\<lambda>key. if key = ''GET example.org/hello'' then [example_entry] else []) example_world of
      Inl p \<Rightarrow> False
    | Inr (cache', s', code, err) \<Rightarrow>
        code = 200 \<and> err = None \<and> cache' ''GET example.org/hello'' = [example_entry] \<and>
        wCalls (writer s') = [WriteHeader 200, Write ''hello''])"
proof -
  let ?r = "example_request ''/hello''"
  let ?cache = "\<lambda>key. if key = ''GET example.org/hello'' then [example_entry] else []"
  have keys: "range_keys example_env (HeaderMap (Response example_entry)) = [''Content-Type'', ''Vary'']"
    by (simp add: example_env_def example_entry_def)
  have d: "distinct (range_keys example_env (HeaderMap (Response example_entry)))"
    unfolding keys by simp
  have s: "set (range_keys example_env (HeaderMap (Response example_entry)))
      = dom (HeaderMap (Response example_entry))"
    unfolding keys by (auto simp: example_entry_def split: if_splits)
  note replays = HandleCachedResponse_replays_entry
    [OF d s, where handler = example_handler and r = "?r" and w = "writer example_world"]
  have inj: "inj_on (CanonicalMIMEHeaderKey example_env) (dom (HeaderMap (Response example_entry)))"
    by (simp add: example_env_def)
  have canon: "CanonicalMIMEHeaderKey example_env k = k" for k
    by (simp add: example_env_def)
  have m: "matchesRequest ?r example_entry = Inr True"
    by (simp add: matchesRequest_def vary_loop_list_all example_entry_def example_request_def
          index_def TrimSpace_examples)
  have hit: "shouldUseCache example_env ?r \<and>
      find_match (matchesRequest ?r) (?cache (getKey (Encode example_env) ?r)) = Inr (Some example_entry) \<and>
      isPublic example_entry"
    using m by (simp add: example_env_def example_request_def getKey_def) (simp add: example_entry_def)
  obtain w' code where res:
    "HandleCachedResponse example_handler example_env (writer example_world) ?r example_entry = (w', code)"
    by (cases "HandleCachedResponse example_handler example_env (writer example_world) ?r example_entry")
  let ?w1 = "AddStatusHeaderIfConfigured example_handler example_env (writer example_world) ''hit''"
  have w1: "wHeader ?w1 = [''X-Cache-Status'' \<mapsto> Slice [''hit'']]"
    by (simp add: AddStatusHeaderIfConfigured_def example_handler_def example_world_def
          Header_Set_def canon)
  have reader: "GetReader example_env c = ''hello''" for c
    by (simp add: example_env_def)
  from replays [THEN conjunct1] have body:
    "code = Code (Response example_entry) \<and>
     wCalls w' = wCalls (writer example_world) @ WriteHeader (Code (Response example_entry)) #
        (case Body (Response example_entry) of
           None \<Rightarrow> []
         | Some body \<Rightarrow> [Write (GetReader example_env body)]) \<and>
     (\<forall>k vs. HeaderMap (Response example_entry) k = Some vs \<longrightarrow>
        sublist (elems vs) (elems (index (wHeader w') (CanonicalMIMEHeaderKey example_env k))) \<and>
        (inj_on (CanonicalMIMEHeaderKey example_env) (dom (HeaderMap (Response example_entry))) \<longrightarrow>
           elems (index (wHeader w') (CanonicalMIMEHeaderKey example_env k)) =
             elems (index (wHeader ?w1) (CanonicalMIMEHeaderKey example_env k)) @ elems vs)) \<and>
     (\<forall>c. elems (index (wHeader w') c) =
        elems (index (wHeader ?w1) c) @
        concat (map (\<lambda>k. elems (index (HeaderMap (Response example_entry)) k))
                 (filter (\<lambda>k. CanonicalMIMEHeaderKey example_env k = c)
                    (range_keys example_env (HeaderMap (Response example_entry))))))"
    unfolding res prod.case .
  from body have first: "code = 200"
    by (simp add: example_entry_def)
  from body have calls: "wCalls w' = [WriteHeader 200, Write ''hello'']"
    by (simp add: example_entry_def example_world_def reader)
  have each: "elems (index (wHeader w') k) = elems (index (wHeader ?w1) k) @ elems vs"
    if "HeaderMap (Response example_entry) k = Some vs" for k vs
    using body [THEN conjunct2, THEN conjunct2, THEN conjunct1, rule_format, OF that] inj
    by (simp add: canon)
  have ct: "elems (index (wHeader w') ''Content-Type'') = [''text/plain'']"
    using each [of "''Content-Type''" "Slice [''text/plain'']"]
    by (simp add: example_entry_def w1 index_def)
  have vary: "elems (index (wHeader w') ''Vary'') = [''Accept-Encoding'', ''X-B'']"
    using each [of "''Vary''" "Slice [''Accept-Encoding'', ''X-B'']"]
    by (simp add: example_entry_def w1 index_def)
  have status: "elems (index (wHeader w') ''X-Cache-Status'') = [''hit'']"
    using body [THEN conjunct2, THEN conjunct2, THEN conjunct2, rule_format, of "''X-Cache-Status''"]
    by (simp add: keys canon w1 index_def)
  have serve: "ServeHTTP example_handler example_env ?r ?cache example_world =
      Inr (?cache, example_world\<lparr>writer := w'\<rparr>, 200, None)"
    using replays [THEN conjunct2, rule_format, where cache = "?cache" and s = example_world, OF hit] res
    by (simp add: example_entry_def)
  show ?thesis
    unfolding res serve using first calls ct vary status by simp
qed

subsection \<open>The miss path\<close>






text \<open>
  C9. The claim is that, with a status header configured, the response headers of an entry
  the miss path returns never contain that header. \<^verbatim>\<open>AddStatusHeaderIfConfigured\<close> writes the
  indicator with \<^verbatim>\<open>Header.Set\<close>, under the canonical form of the configured name, and
  \<^verbatim>\<open>RemoveStatusHeaderIfConfigured\<close> deletes the configured name as it is spelled. With the
  name configured as \<^verbatim>\<open>x-cache-status\<close> and headers delivered that include the writer's, the
  private entry of the not cacheable branch and the public entry of the cacheable branch
  both keep \<^verbatim>\<open>X-Cache-Status: miss\<close>, and a hit on the public entry sends the header with
  the two values \<^verbatim>\<open>hit\<close> and \<^verbatim>\<open>miss\<close>: what the comment of lines 62 to 65 says the deletion
  prevents.
\<close>

theorem status_header_persisted_under_canonical_name:
  "HandleNonCachedResponse lowercase_handler canonical_env (example_request ''/missing'') example_world =
     (example_world
        \<lparr>writer := \<lparr>wHeader = [''X-Cache-Status'' \<mapsto> Slice [''miss'']], wCalls = []\<rparr>,
         goroutines := [pipe_handle, drain_body]\<rparr>,
      EndChannel,
      Inr \<lparr>isPublic = False, Expiration = Hour,
           Request = \<lparr>ReqHeaderMap = Header (example_request ''/missing'')\<rparr>,
           Response =
             \<lparr>HeaderMap = [''X-Cache-Status'' \<mapsto> Slice [''miss''],
                           ''Content-Type'' \<mapsto> Slice [''text/plain'']],
              Body = None, Code = 404\<rparr>\<rparr>) \<and>
   HandleNonCachedResponse lowercase_handler canonical_env (example_request ''/hello'') example_world =
     (example_world
        \<lparr>writer := \<lparr>wHeader = [''X-Cache-Status'' \<mapsto> Slice [''miss'']], wCalls = []\<rparr>,
         goroutines := [pipe_handle, pump_body 0],
         NewContent_calls := [''GET example.org/hello'']\<rparr>,
      EndChannel,
      Inr \<lparr>isPublic = True, Expiration = 600000000000,
           Request = \<lparr>ReqHeaderMap = Header (example_request ''/hello'')\<rparr>,
           Response =
             \<lparr>HeaderMap = [''X-Cache-Status'' \<mapsto> Slice [''miss''],
                           ''Content-Type'' \<mapsto> Slice [''text/plain'']],
              Body = Some 0, Code = 200\<rparr>\<rparr>) \<and>
   index (wHeader (fst (HandleCachedResponse lowercase_handler canonical_env (writer example_world)
       (example_request ''/hello'')
       \<lparr>isPublic = True, Expiration = 600000000000,
        Request = \<lparr>ReqHeaderMap = Header (example_request ''/hello'')\<rparr>,
        Response =
          \<lparr>HeaderMap = [''X-Cache-Status'' \<mapsto> Slice [''miss''],
                        ''Content-Type'' \<mapsto> Slice [''text/plain'']],
           Body = Some 0, Code = 200\<rparr>\<rparr>))) ''X-Cache-Status'' = Slice [''hit'', ''miss'']"
proof (intro conjI)
  have del: "delete [''X-Cache-Status'' \<mapsto> Slice [''miss''], ''Content-Type'' \<mapsto> Slice [''text/plain'']]
      ''x-cache-status'' =
      [''X-Cache-Status'' \<mapsto> Slice [''miss''], ''Content-Type'' \<mapsto> Slice [''text/plain'']]"
    by (auto simp: delete_def fun_eq_iff)
  show "HandleNonCachedResponse lowercase_handler canonical_env (example_request ''/missing'') example_world =
     (example_world
        \<lparr>writer := \<lparr>wHeader = [''X-Cache-Status'' \<mapsto> Slice [''miss'']], wCalls = []\<rparr>,
         goroutines := [pipe_handle, drain_body]\<rparr>,
      EndChannel,
      Inr \<lparr>isPublic = False, Expiration = Hour,
           Request = \<lparr>ReqHeaderMap = Header (example_request ''/missing'')\<rparr>,
           Response =
             \<lparr>HeaderMap = [''X-Cache-Status'' \<mapsto> Slice [''miss''],
                           ''Content-Type'' \<mapsto> Slice [''text/plain'']],
              Body = None, Code = 404\<rparr>\<rparr>)"
    by (simp add: HandleNonCachedResponse_def Let_def lowercase_miss_writer canonical_env_simps
          example_HeaderChannel example_getCacheableStatus RemoveStatusHeaderIfConfigured_def)
       (simp add: lowercase_handler_def del example_world_def)
  show "HandleNonCachedResponse lowercase_handler canonical_env (example_request ''/hello'') example_world =
     (example_world
        \<lparr>writer := \<lparr>wHeader = [''X-Cache-Status'' \<mapsto> Slice [''miss'']], wCalls = []\<rparr>,
         goroutines := [pipe_handle, pump_body 0],
         NewContent_calls := [''GET example.org/hello'']\<rparr>,
      EndChannel,
      Inr \<lparr>isPublic = True, Expiration = 600000000000,
           Request = \<lparr>ReqHeaderMap = Header (example_request ''/hello'')\<rparr>,
           Response =
             \<lparr>HeaderMap = [''X-Cache-Status'' \<mapsto> Slice [''miss''],
                           ''Content-Type'' \<mapsto> Slice [''text/plain'']],
              Body = Some 0, Code = 200\<rparr>\<rparr>)"
    by (simp add: HandleNonCachedResponse_def Let_def lowercase_miss_writer canonical_env_simps
          example_HeaderChannel example_getCacheableStatus example_NewContent example_getKey
          RemoveStatusHeaderIfConfigured_def)
       (simp add: lowercase_handler_def del example_world_def)
  show "index (wHeader (fst (HandleCachedResponse lowercase_handler canonical_env (writer example_world)
       (example_request ''/hello'')
       \<lparr>isPublic = True, Expiration = 600000000000,
        Request = \<lparr>ReqHeaderMap = Header (example_request ''/hello'')\<rparr>,
        Response =
          \<lparr>HeaderMap = [''X-Cache-Status'' \<mapsto> Slice [''miss''],
                        ''Content-Type'' \<mapsto> Slice [''text/plain'']],
           Body = Some 0, Code = 200\<rparr>\<rparr>))) ''X-Cache-Status'' = Slice [''hit'', ''miss'']"
    by (simp add: HandleCachedResponse_def Let_def AddStatusHeaderIfConfigured_def
          lowercase_handler_def canonical_env_def example_env_def example_world_def
          Header_Set_def Header_Add_def index_def append_slice_def)
qed

subsection \<open>The producer and the errors\<close>

text \<open>
  C3. The function literal handed to \<^verbatim>\<open>GetOrSet\<close>: when there is no previous entry, or the
  previous entry is private, it runs the miss path and returns what the miss path returned,
  the new entry as the replacement (or the miss path's error); when the previous entry is
  public, it runs the hit path on the client's writer and returns no replacement and no
  error. A private previous entry is treated exactly as no entry: the outcome does not
  depend on it, and the writer receives no \<^verbatim>\<open>WriteHeader\<close> and no \<^verbatim>\<open>Write\<close> from the handler.
\<close>

theorem producer_serves_public_entries_only:
  "((\<forall>p. previous = Some p \<longrightarrow> \<not> isPublic p) \<longrightarrow>
      producer handler ext r previous (s, v) =
        (case HandleNonCachedResponse handler ext r s of
           (s', endChn, Inl err) \<Rightarrow> ((s', v), Inl err)
         | (s', endChn, Inr newEntry) \<Rightarrow>
             ((s', v\<lparr>endChannel := Some endChn,
                     returnedStatusCode := Code (Response newEntry)\<rparr>),
              Inr (Some newEntry)))) \<and>
   (\<forall>p. previous = Some p \<and> isPublic p \<longrightarrow>
      producer handler ext r previous (s, v) =
        ((s\<lparr>writer := fst (HandleCachedResponse handler ext (writer s) r p)\<rparr>,
          v\<lparr>returnedStatusCode := Code (Response p)\<rparr>), Inr None)) \<and>
   (\<forall>p. \<not> isPublic p \<longrightarrow>
      producer handler ext r (Some p) (s, v) = producer handler ext r None (s, v) \<and>
      wCalls (writer (fst (fst (producer handler ext r (Some p) (s, v))))) = wCalls (writer s))"
proof (intro conjI allI impI)
  assume "\<forall>p. previous = Some p \<longrightarrow> \<not> isPublic p"
  then show "producer handler ext r previous (s, v) =
        (case HandleNonCachedResponse handler ext r s of
           (s', endChn, Inl err) \<Rightarrow> ((s', v), Inl err)
         | (s', endChn, Inr newEntry) \<Rightarrow>
             ((s', v\<lparr>endChannel := Some endChn,
                     returnedStatusCode := Code (Response newEntry)\<rparr>),
              Inr (Some newEntry)))"
    by (cases previous) (simp_all add: producer_def Let_def)
next
  fix p :: HttpCacheEntry
  assume "previous = Some p \<and> isPublic p"
  then show "producer handler ext r previous (s, v) =
        ((s\<lparr>writer := fst (HandleCachedResponse handler ext (writer s) r p)\<rparr>,
          v\<lparr>returnedStatusCode := Code (Response p)\<rparr>), Inr None)"
    by (simp add: producer_def Let_def HandleCachedResponse_def AddStatusHeaderIfConfigured_twice
          split: option.splits)
next
  fix p :: HttpCacheEntry
  assume "\<not> isPublic p"
  then show "producer handler ext r (Some p) (s, v) = producer handler ext r None (s, v)"
    by (simp add: producer_def Let_def)
next
  fix p :: HttpCacheEntry
  assume not_public: "\<not> isPublic p"
  obtain s' chn res where miss: "HandleNonCachedResponse handler ext r s = (s', chn, res)"
    by (cases "HandleNonCachedResponse handler ext r s")
  from not_public miss have "fst (fst (producer handler ext r (Some p) (s, v))) = s'"
    by (cases res) (simp_all add: producer_def Let_def)
  with HandleNonCachedResponse_wCalls [OF miss]
  show "wCalls (writer (fst (fst (producer handler ext r (Some p) (s, v))))) = wCalls (writer s)"
    by simp
qed

theorem producer_serves_public_entries_only_witness:
  "producer example_handler example_env (example_request ''/hello'')
       (Some (example_entry\<lparr>isPublic := False\<rparr>))
       (example_world, \<lparr>endChannel = None, returnedStatusCode = 500\<rparr>) =
     producer example_handler example_env (example_request ''/hello'') None
       (example_world, \<lparr>endChannel = None, returnedStatusCode = 500\<rparr>) \<and>
   wCalls (writer (fst (fst (producer example_handler example_env (example_request ''/hello'')
       (Some (example_entry\<lparr>isPublic := False\<rparr>))
       (example_world, \<lparr>endChannel = None, returnedStatusCode = 500\<rparr>))))) = [] \<and>
   (case producer example_handler example_env (example_request ''/hello'') (Some example_entry)
           (example_world, \<lparr>endChannel = None, returnedStatusCode = 500\<rparr>) of
      ((s', v'), result) \<Rightarrow>
        result = Inr None \<and> returnedStatusCode v' = 200 \<and> endChannel v' = None \<and>
        wCalls (writer s') = [WriteHeader 200, Write ''hello'']) \<and>
   (case producer example_handler example_env (example_request ''/hello'') None
           (example_world, \<lparr>endChannel = None, returnedStatusCode = 500\<rparr>) of
      ((s', v'), result) \<Rightarrow>
        (case result of
           Inr (Some entry) \<Rightarrow> isPublic entry \<and> Code (Response entry) = 200
         | _ \<Rightarrow> False) \<and>
        returnedStatusCode v' = 200 \<and> endChannel v' = Some EndChannel)"
proof -
  let ?r = "example_request ''/hello''"
  let ?v = "\<lparr>endChannel = None, returnedStatusCode = 500\<rparr>"
  let ?private = "example_entry\<lparr>isPublic := False\<rparr>"
  have p: "\<not> isPublic ?private" by simp
  note for_private = producer_serves_public_entries_only
    [where handler = example_handler and ext = example_env and r = "?r" and s = example_world
       and v = "?v", THEN conjunct2, THEN conjunct2, rule_format, OF p]
  have q: "Some example_entry = Some example_entry \<and> isPublic example_entry"
    by (simp add: example_entry_def)
  note for_public = producer_serves_public_entries_only
    [where handler = example_handler and ext = example_env and r = "?r" and s = example_world
       and v = "?v" and previous = "Some example_entry",
     THEN conjunct2, THEN conjunct1, rule_format, OF q]
  have n: "\<forall>p. (None :: HttpCacheEntry option) = Some p \<longrightarrow> \<not> isPublic p"
    by simp
  note for_none = producer_serves_public_entries_only
    [where handler = example_handler and ext = example_env and r = "?r" and s = example_world
       and v = "?v" and previous = None, THEN conjunct1, THEN mp, OF n]
  have hit: "HandleCachedResponse example_handler example_env (writer example_world) ?r example_entry
      = (\<lparr>wHeader = replay (\<lambda>k. k) (HeaderMap (Response example_entry))
                        [''X-Cache-Status'' \<mapsto> Slice [''hit'']] [''Content-Type'', ''Vary''],
           wCalls = [WriteHeader 200, Write ''hello'']\<rparr>, 200)"
    by (simp add: HandleCachedResponse_def Let_def AddStatusHeaderIfConfigured_def Header_Set_def
          example_handler_def example_env_def example_world_def example_entry_def)
  have miss: "HandleNonCachedResponse example_handler example_env ?r example_world =
      (example_world\<lparr>writer := \<lparr>wHeader = [''X-Cache-Status'' \<mapsto> Slice [''miss'']], wCalls = []\<rparr>,
                     goroutines := [pipe_handle, pump_body 0],
                     NewContent_calls := [''GET example.org/hello'']\<rparr>,
       EndChannel,
       Inr \<lparr>isPublic = True, Expiration = 600000000000,
            Request = \<lparr>ReqHeaderMap = Header ?r\<rparr>,
            Response = \<lparr>HeaderMap = RemoveStatusHeaderIfConfigured example_handler
                          [''X-Cache-Status'' \<mapsto> Slice [''miss''],
                           ''Content-Type'' \<mapsto> Slice [''text/plain'']],
                        Body = Some 0, Code = 200\<rparr>\<rparr>)"
    by (simp add: HandleNonCachedResponse_def Let_def example_miss_writer example_HeaderChannel
          example_getCacheableStatus example_NewContent example_getKey)
       (simp add: example_world_def)
  show ?thesis
    using for_private
    by (simp add: for_public for_none hit miss) (simp add: example_world_def example_entry_def)
qed

text \<open>
  C6. When the policy returns an error, or when it answers cacheable and \<^verbatim>\<open>NewContent\<close>
  returns an error, the miss path returns no entry and that error. With \<^verbatim>\<open>GetOrSet\<close> as the
  specification describes it, a miss path that ends in an error makes \<^verbatim>\<open>ServeHTTP\<close> return
  that error with status code 500, and the store holds what it held before.
\<close>

theorem miss_path_error_reaches_caller:
  "(\<forall>StatusCode headers c t e.
      HeaderChannel ext (AddStatusHeaderIfConfigured handler ext (writer s) ''miss'') r =
        (StatusCode, headers) \<and>
      getCacheableStatus ext r StatusCode headers (Config handler) = (c, t, Some e) \<longrightarrow>
      (case HandleNonCachedResponse handler ext r s of
         (s', chn, result) \<Rightarrow>
           result = Inl e \<and> NewContent_calls s' = NewContent_calls s \<and>
           goroutines s' = goroutines s @ [pipe_handle])) \<and>
   (\<forall>StatusCode headers E e.
      HeaderChannel ext (AddStatusHeaderIfConfigured handler ext (writer s) ''miss'') r =
        (StatusCode, headers) \<and>
      getCacheableStatus ext r StatusCode headers (Config handler) = (True, E, None) \<and>
      NewContent ext (NewContent_calls s) (getKey (Encode ext) r) = Inl e \<longrightarrow>
      (case HandleNonCachedResponse handler ext r s of
         (s', chn, result) \<Rightarrow> result = Inl e \<and> goroutines s' = goroutines s @ [pipe_handle])) \<and>
   (\<forall>cache previous s' chn e.
      shouldUseCache ext r \<and>
      find_match (matchesRequest r) (cache (getKey (Encode ext) r)) = Inr previous \<and>
      (case previous of None \<Rightarrow> True | Some p \<Rightarrow> \<not> isPublic p) \<and>
      HandleNonCachedResponse handler ext r s = (s', chn, Inl e) \<longrightarrow>
      ServeHTTP handler ext r cache s = Inr (cache, s', StatusInternalServerError, Some e) \<and>
      StatusInternalServerError = 500)"
  by (auto simp: HandleNonCachedResponse_def ServeHTTP_def GetOrSet_def producer_def Let_def
        StatusInternalServerError_def split: option.splits)

theorem miss_path_error_reaches_caller_witness:
  "(case ServeHTTP example_handler example_env (example_request ''/broken'') (\<lambda>key. []) example_world of
      Inl p \<Rightarrow> False
    | Inr (cache', s', code, err) \<Rightarrow>
        code = 500 \<and> err = Some (Error ''policy'') \<and> cache' ''GET example.org/broken'' = [] \<and>
        NewContent_calls s' = [] \<and> received s' = []) \<and>
   (case ServeHTTP example_handler example_env (example_request ''/full'') (\<lambda>key. []) example_world of
      Inl p \<Rightarrow> False
    | Inr (cache', s', code, err) \<Rightarrow>
        code = 500 \<and> err = Some (Error ''disk full'') \<and> cache' ''GET example.org/full'' = [] \<and>
        received s' = [])"
proof -
  let ?w = "AddStatusHeaderIfConfigured example_handler example_env (writer example_world) ''miss''"
  let ?h = "[''X-Cache-Status'' \<mapsto> Slice [''miss''], ''Content-Type'' \<mapsto> Slice [''text/plain'']]"
  note errors = miss_path_error_reaches_caller
    [where handler = example_handler and ext = example_env and s = example_world]
  have policy: "HeaderChannel example_env ?w (example_request ''/broken'') = (500, ?h) \<and>
      getCacheableStatus example_env (example_request ''/broken'') 500 ?h (Config example_handler)
        = (False, 0, Some (Error ''policy''))"
    by (simp add: example_miss_writer example_HeaderChannel example_getCacheableStatus)
  have sink: "HeaderChannel example_env ?w (example_request ''/full'') = (200, ?h) \<and>
      getCacheableStatus example_env (example_request ''/full'') 200 ?h (Config example_handler)
        = (True, 600000000000, None) \<and>
      NewContent example_env (NewContent_calls example_world)
        (getKey (Encode example_env) (example_request ''/full'')) = Inl (Error ''disk full'')"
    by (simp add: example_miss_writer example_HeaderChannel example_getCacheableStatus
          example_NewContent example_getKey)
  obtain s1 c1 r1 where m1:
    "HandleNonCachedResponse example_handler example_env (example_request ''/broken'') example_world
       = (s1, c1, r1)"
    by (cases "HandleNonCachedResponse example_handler example_env (example_request ''/broken'') example_world")
  obtain s2 c2 r2 where m2:
    "HandleNonCachedResponse example_handler example_env (example_request ''/full'') example_world
       = (s2, c2, r2)"
    by (cases "HandleNonCachedResponse example_handler example_env (example_request ''/full'') example_world")
  from errors [where r = "example_request ''/broken''", THEN conjunct1, rule_format, OF policy] m1
  have r1: "r1 = Inl (Error ''policy'')" and calls1: "NewContent_calls s1 = []"
    by (simp_all add: example_world_def)
  from errors [where r = "example_request ''/full''", THEN conjunct2, THEN conjunct1, rule_format, OF sink] m2
  have r2: "r2 = Inl (Error ''disk full'')"
    by simp
  from HandleNonCachedResponse_received [OF m1] have rec1: "received s1 = []"
    by (simp add: example_world_def)
  from HandleNonCachedResponse_received [OF m2] have rec2: "received s2 = []"
    by (simp add: example_world_def)
  have use: "shouldUseCache example_env (example_request path)" for path
    by (simp add: example_env_def example_request_def)
  have serve1: "ServeHTTP example_handler example_env (example_request ''/broken'') (\<lambda>key. []) example_world
      = Inr (\<lambda>key. [], s1, StatusInternalServerError, Some (Error ''policy''))"
    using errors [where r = "example_request ''/broken''", THEN conjunct2, THEN conjunct2, rule_format,
        where cache = "\<lambda>key. []" and previous = None and s' = s1 and chn = c1 and e = "Error ''policy''"]
      use m1 r1
    by simp
  have serve2: "ServeHTTP example_handler example_env (example_request ''/full'') (\<lambda>key. []) example_world
      = Inr (\<lambda>key. [], s2, StatusInternalServerError, Some (Error ''disk full''))"
    using errors [where r = "example_request ''/full''", THEN conjunct2, THEN conjunct2, rule_format,
        where cache = "\<lambda>key. []" and previous = None and s' = s2 and chn = c2 and e = "Error ''disk full''"]
      use m2 r2
    by simp
  show ?thesis
    unfolding serve1 serve2 using calls1 rec1 rec2
    by (simp add: StatusInternalServerError_def)
qed

subsection \<open>Further facts\<close>

text \<open>
  A \<^verbatim>\<open>Vary\<close> key without values, nil or empty, makes \<^verbatim>\<open>vary[0]\<close> panic: the predicate returns
  no boolean there.
\<close>

lemma matchesRequest_Vary_without_values:
  "HeaderMap (Response entry) ''Vary'' = Some vary \<Longrightarrow> elems vary = [] \<Longrightarrow>
   matchesRequest r entry = Inl IndexOutOfRange"
  by (simp add: matchesRequest_def)

text \<open>
  Where deep equality and the list equality of the specification agree: for a name that
  neither header map holds with a nil slice, the slices read under it are equal exactly
  when \<open>same_values\<close> accepts it.
\<close>

lemma index_eq_same_values:
  assumes "stored name \<noteq> Some NilSlice" and "current name \<noteq> Some NilSlice"
  shows "index stored name = index current name \<longleftrightarrow> same_values stored current name"
  using assms
  by (cases "stored name"; cases "current name")
     (auto simp: index_def same_values_def elim: elems.elims)

text \<open>
  What the deletion of the status header does achieve: the response headers of a returned
  entry have no values under the configured name as it is spelled.
\<close>

lemma HandleNonCachedResponse_deletes_configured_key:
  assumes "StatusHeader (Config handler) \<noteq> ''''"
      and "HandleNonCachedResponse handler ext r s = (s', chn, Inr entry)"
  shows "HeaderMap (Response entry) (StatusHeader (Config handler)) = None"
  using assms
  by (auto simp: HandleNonCachedResponse_def Let_def RemoveStatusHeaderIfConfigured_def delete_def
           split: prod.splits option.splits if_splits sum.splits)

text \<open>
  The sequential part of the wait in \<^verbatim>\<open>ServeHTTP\<close>: after a miss path that returned an entry,
  \<^verbatim>\<open>ServeHTTP\<close> receives once from the channel the miss path made, and reports the upstream
  status code; after a miss path that returned an error it receives from no channel, since
  the function literal returns before it records the channel.
\<close>

lemma ServeHTTP_miss_receives:
  assumes "shouldUseCache ext r"
      and "find_match (matchesRequest r) (cache (getKey (Encode ext) r)) = Inr previous"
      and "case previous of None \<Rightarrow> True | Some p \<Rightarrow> \<not> isPublic p"
      and "HandleNonCachedResponse handler ext r s = (s', chn, Inr entry)"
  shows "\<exists>cache'. ServeHTTP handler ext r cache s =
           Inr (cache', s'\<lparr>received := received s @ [chn]\<rparr>, Code (Response entry), None)"
proof -
  from assms(4) have "received s' = received s"
    by (rule HandleNonCachedResponse_received)
  with assms show ?thesis
    by (auto simp: ServeHTTP_def GetOrSet_def producer_def Let_def split: option.splits)
qed

end
